theory Spec2Isabelle
  imports Main "HOL-Library.Sublist"
begin

section \<open>AstMultiDialer: a shallow embedding of astmultidialer.c\<close>

text \<open>
  The program drives nine virtual telephone lines through the Asterisk Manager Interface
  (AMI). Strings of the model are C strings: the characters before the terminating NUL.
  Everything the C code does beyond computing a value is explicit: the registry
  \<open>lines\<close>, the AMI responses still to come, and the ordered trace of effects (AMI
  actions, terminal output, sleeps). Undefined behaviour of the C code (an index outside
  the registry, a NULL string handed to \<open>strncmp\<close>, integer overflow) is a
  \<open>fault\<close> value.
\<close>

subsection \<open>Configurable settings\<close>

definition PEER_PREFIX :: string where
  "PEER_PREFIX = ''autotest''"

definition PLAR_CODE :: string where
  "PLAR_CODE = ''01''"

definition PLAR_DIALPLAN_CONTEXT :: string where
  "PLAR_DIALPLAN_CONTEXT = ''idle''"

definition PLAR_DIALPLAN_EXTEN :: string where
  "PLAR_DIALPLAN_EXTEN = ''9999''"

definition MAX_LINES :: nat where
  "MAX_LINES = 9"

subsection \<open>Data\<close>

text \<open>\<open>struct line\<close>; the bit field \<open>offhook:1\<close> is a boolean.\<close>

record line =
  devicename :: string
  dialstr :: string
  dialexten :: string
  channel :: string
  offhook :: bool

text \<open>
  The AMI actions the program sends, with the arguments it formats into them.
  \<open>CoreShowChannels\<close> is the action behind \<open>ami_action_show_channels\<close>.
\<close>

datatype action =
    Originate string string string string
  | Hangup string int
  | SendFlash string
  | PlayDTMF string char
  | CoreShowChannels

text \<open>
  \<open>struct ami_response\<close> as far as the program reads it: the \<open>success\<close> flag and
  the events, each event given by what \<open>ami_keyvalue(event, "Channel")\<close> returns
  for it (\<open>None\<close> is NULL: the event has no such key). \<open>resp->size\<close> is the length
  of the list.
\<close>

record ami_response =
  success :: bool
  events :: "string option list"

datatype effect =
    Ami action
  | Stderr string
  | Stdout string
  | Sleep int
  | Usleep int
  | Tcsetattr_orig
  | Tcsetattr_tty
  | Signal_sigint
  | Ami_disconnect

text \<open>
  The state: the static array \<open>lines[MAX_LINES + 1]\<close>, the responses the AMI server
  will give to the next actions (in order; \<open>None\<close> or an exhausted list is a NULL
  response), and everything done so far.
\<close>

record world =
  lines :: "line list"
  pending :: "ami_response option list"
  trace :: "effect list"

datatype fault =
    Out_of_bounds int
  | Atoi_overflow
  | Null_channel
  | Int_overflow

definition line0 :: line where
  "line0 = \<lparr>devicename = [], dialstr = [], dialexten = [], channel = [], offhook = False\<rparr>"

definition init_world :: "ami_response option list \<Rightarrow> world" where
  "init_world rs = \<lparr>lines = replicate (MAX_LINES + 1) line0, pending = rs, trace = []\<rparr>"

subsection \<open>The C library, as far as the program uses it\<close>

definition NUL :: char where
  "NUL = CHR 0x00"

definition peek :: "string \<Rightarrow> char" where
  "peek s = (case s of [] \<Rightarrow> NUL | c # _ \<Rightarrow> c)"

definition isdigit :: "char \<Rightarrow> bool" where
  "isdigit c = (c \<in> set ''0123456789'')"

definition isspace :: "char \<Rightarrow> bool" where
  "isspace c = (c \<in> set [CHR '' '', CHR 0x09, CHR 0x0A, CHR 0x0B, CHR 0x0C, CHR 0x0D])"

definition tolower :: "char \<Rightarrow> char" where
  "tolower c =
     (case map_of (zip ''ABCDEFGHIJKLMNOPQRSTUVWXYZ'' ''abcdefghijklmnopqrstuvwxyz'') c of
        None \<Rightarrow> c
      | Some l \<Rightarrow> l)"

definition ltrim :: "string \<Rightarrow> string" where
  "ltrim s = dropWhile isspace s"

definition digit_val :: "char \<Rightarrow> int" where
  "digit_val c = of_char c - 48"

definition digits_value :: "string \<Rightarrow> int" where
  "digits_value ds = foldl (\<lambda>a c. 10 * a + digit_val c) 0 ds"

definition INT_MAX :: int where
  "INT_MAX = 2147483647"

definition INT_MIN :: int where
  "INT_MIN = - 2147483648"

text \<open>
  \<open>atoi\<close>: white space, an optional sign, then the leading digits. The behaviour is
  undefined when the value is not an \<open>int\<close>: \<open>None\<close>.
\<close>

definition atoi :: "string \<Rightarrow> int option" where
  "atoi s =
     (let s1 = dropWhile isspace s;
          neg = (peek s1 = CHR ''-'');
          s2 = (if peek s1 = CHR ''-'' \<or> peek s1 = CHR ''+'' then tl s1 else s1);
          v = digits_value (takeWhile isdigit s2);
          r = (if neg then - v else v)
      in if INT_MIN \<le> r \<and> r \<le> INT_MAX then Some r else None)"

text \<open>\<open>strncmp(a, b, n) == 0\<close> on NUL-free strings.\<close>

definition strncmp_eq :: "string \<Rightarrow> string \<Rightarrow> nat \<Rightarrow> bool" where
  "strncmp_eq a b n = (take n a = take n b)"

text \<open>\<open>strncasecmp(a, b, n) == 0\<close> and \<open>strcasecmp(a, b) == 0\<close>.\<close>

definition strncasecmp_eq :: "string \<Rightarrow> string \<Rightarrow> nat \<Rightarrow> bool" where
  "strncasecmp_eq a b n = (map tolower (take n a) = map tolower (take n b))"

definition strcasecmp_eq :: "string \<Rightarrow> string \<Rightarrow> bool" where
  "strcasecmp_eq a b = (map tolower a = map tolower b)"

text \<open>\<open>%d\<close> of a non-negative number.\<close>

fun string_of_nat :: "nat \<Rightarrow> string" where
  "string_of_nat n =
     (if n < 10 then [''0123456789'' ! n]
      else string_of_nat (n div 10) @ [''0123456789'' ! (n mod 10)])"

definition string_of_int :: "int \<Rightarrow> string" where
  "string_of_int i = (if i < 0 then CHR ''-'' # string_of_nat (nat (- i)) else string_of_nat (nat i))"

text \<open>Conversion of an \<open>int\<close> argument to \<open>unsigned int\<close>.\<close>

definition to_unsigned :: "int \<Rightarrow> int" where
  "to_unsigned i = i mod 4294967296"

subsection \<open>Effects\<close>

definition eprint :: "world \<Rightarrow> string \<Rightarrow> world" where
  "eprint w s = w\<lparr>trace := trace w @ [Stderr s]\<rparr>"

definition do_effect :: "world \<Rightarrow> effect \<Rightarrow> world" where
  "do_effect w e = w\<lparr>trace := trace w @ [e]\<rparr>"

text \<open>
  \<open>ami_action\<close>: the action is sent, the next response is returned (NULL when there
  is none).
\<close>

definition ami_action :: "world \<Rightarrow> action \<Rightarrow> ami_response option \<times> world" where
  "ami_action w a =
     ((case pending w of [] \<Rightarrow> None | r # _ \<Rightarrow> r),
      w\<lparr>pending := tl (pending w), trace := trace w @ [Ami a]\<rparr>)"

definition set_offhook :: "world \<Rightarrow> nat \<Rightarrow> bool \<Rightarrow> world" where
  "set_offhook w i b = w\<lparr>lines := (lines w)[i := (lines w ! i)\<lparr>offhook := b\<rparr>]\<rparr>"

definition set_channel :: "world \<Rightarrow> nat \<Rightarrow> string \<Rightarrow> world" where
  "set_channel w i c = w\<lparr>lines := (lines w)[i := (lines w ! i)\<lparr>channel := c\<rparr>]\<rparr>"

subsection \<open>hangup_all\<close>

text \<open>One round of the loop body of \<open>hangup_all\<close>, for line \<open>i\<close>.\<close>

definition hangup_line :: "world \<Rightarrow> nat \<Rightarrow> world" where
  "hangup_line w i =
     (if offhook (lines w ! i) then
        (case ami_action w (Hangup (channel (lines w ! i)) 16) of
           (Some resp, w1) \<Rightarrow>
             if success resp
             then set_offhook (eprint w1 (''Hung up line '' @ string_of_nat i @ ''\<newline>'')) i False
             else w1
         | (None, w1) \<Rightarrow> w1)
      else w)"

definition hangup_all :: "world \<Rightarrow> world" where
  "hangup_all w = foldl hangup_line w [1..<MAX_LINES + 1]"

subsection \<open>The handlers that end the process\<close>

definition EXIT_FAILURE :: int where
  "EXIT_FAILURE = 1"

text \<open>Both handlers call \<open>exit\<close>: the result is the exit status and the final state.\<close>

definition simple_disconnect_callback :: "world \<Rightarrow> int \<times> world" where
  "simple_disconnect_callback w =
     (EXIT_FAILURE,
      do_effect (eprint w ''\<newline>AMI was forcibly disconnected...\<newline>'') Tcsetattr_orig)"

definition restore_term :: "world \<Rightarrow> int \<times> world" where
  "restore_term w =
     (let w1 = eprint (do_effect w Tcsetattr_orig) ''\<newline>'';
          w2 = hangup_all w1;
          w3 = do_effect w2 Ami_disconnect;
          w4 = eprint w3 ''\<newline>AstMultiDialer exiting...\<newline>''
      in (EXIT_FAILURE, w4))"

subsection \<open>find_channel\<close>

text \<open>
  The loop \<open>for (i = 1; i < resp->size - 1; i++)\<close>: \<open>Inr (Some c)\<close> when it breaks at
  channel \<open>c\<close>, \<open>Inr None\<close> when it runs to the end, a fault when \<open>strncmp\<close> is
  handed NULL.
\<close>

function find_channel_scan :: "string option list \<Rightarrow> string \<Rightarrow> nat \<Rightarrow> fault + string option" where
  "find_channel_scan evs pfx i =
     (if int i < int (length evs) - 1 then
        (case evs ! i of
           None \<Rightarrow> Inl Null_channel
         | Some ch \<Rightarrow>
             if strncmp_eq ch pfx (length pfx) then Inr (Some ch)
             else find_channel_scan evs pfx (i + 1))
      else Inr None)"
  by pat_completeness auto
termination
  by (relation "measure (\<lambda>(evs, pfx, i). length evs - i)") auto

declare find_channel_scan.simps [simp del]

text \<open>
  \<open>strncpy\<close> copies at most \<open>sizeof(channel) - 1 = 127\<close> characters and pads with
  NUL; the last byte of the static array is never written and stays NUL.
\<close>

definition find_channel :: "world \<Rightarrow> nat \<Rightarrow> fault + (int \<times> world)" where
  "find_channel w n =
     (let pfx = devicename (lines w ! n) in
      case ami_action w CoreShowChannels of
        (None, w1) \<Rightarrow> Inr (- 1, eprint w1 ''Failed to show channels\<newline>'')
      | (Some resp, w1) \<Rightarrow>
          (case find_channel_scan (events resp) pfx 1 of
             Inl f \<Rightarrow> Inl f
           | Inr (Some ch) \<Rightarrow> Inr (0, set_channel w1 n (take 127 ch))
           | Inr None \<Rightarrow>
               Inr (- 1, eprint w1 (''Failed to find channel for '' @ devicename (lines w1 ! n) @ ''\<newline>''))))"

subsection \<open>run_command\<close>

definition strip_comment :: "string \<Rightarrow> string" where
  "strip_comment command = takeWhile (\<lambda>c. c \<noteq> CHR '';'') command"

text \<open>The three \<open>snprintf\<close> calls that derive the names of line \<open>n\<close>.\<close>

definition derive_names :: "world \<Rightarrow> nat \<Rightarrow> world" where
  "derive_names w n =
     w\<lparr>lines := (lines w)[n := (lines w ! n)
        \<lparr>devicename := take 63 (''PJSIP/'' @ PEER_PREFIX @ string_of_nat n),
         dialstr := take 83 (''PJSIP/'' @ PLAR_CODE @ ''@'' @ PEER_PREFIX @ string_of_nat n),
         dialexten := take 63 PLAR_DIALPLAN_CONTEXT\<rparr>]\<rparr>"

text \<open>The \<open>while (*command)\<close> loop of the DTMF branch; the responses are not looked at.\<close>

fun play_dtmf :: "world \<Rightarrow> string \<Rightarrow> string \<Rightarrow> world" where
  "play_dtmf w chan [] = w"
| "play_dtmf w chan (c # cs) = play_dtmf (snd (ami_action w (PlayDTMF chan c))) chan cs"

text \<open>
  The branch \<open>if (n)\<close> of \<open>run_command\<close>: \<open>command\<close> is the text after the line
  number. The registry has \<open>MAX_LINES + 1\<close> slots; any other index is out of bounds.
\<close>

definition line_command :: "world \<Rightarrow> int \<Rightarrow> string \<Rightarrow> fault + (int \<times> world)" where
  "line_command w0 n command =
     (if n < 0 \<or> int MAX_LINES < n then Inl (Out_of_bounds n)
      else
        let i = nat n;
            w = derive_names w0 i;
            verb = tolower (peek command);
            arg = tl command
        in
        if verb = CHR ''a'' then Inr (0, eprint w ''XXX Not implemented yet\<newline>'')
        else if verb = CHR ''o'' then
          (case ami_action w (Originate (dialstr (lines w ! i)) (dialexten (lines w ! i))
                                PLAR_DIALPLAN_EXTEN ''1'') of
             (None, w1) \<Rightarrow> Inr (0, eprint w1 ''No response\<newline>'')
           | (Some resp, w1) \<Rightarrow>
               if success resp then
                 (case find_channel (set_offhook w1 i True) i of
                    Inl f \<Rightarrow> Inl f
                  | Inr (r, w2) \<Rightarrow> Inr (0, if r = 0 then eprint w2 ''OK\<newline>'' else w2))
               else Inr (0, eprint w1 (''Failed to go off hook on line '' @ string_of_int n @ ''\<newline>'')))
        else if verb = CHR ''h'' then
          (if \<not> offhook (lines w ! i)
           then Inr (0, eprint w ''Can't do this action on on-hook line\<newline>'')
           else
             case ami_action w (Hangup (channel (lines w ! i)) 16) of
               (None, w1) \<Rightarrow> Inr (0, eprint w1 ''No response\<newline>'')
             | (Some resp, w1) \<Rightarrow>
                 if success resp then Inr (0, eprint (set_offhook w1 i False) ''OK\<newline>'')
                 else Inr (0, eprint w1 (''Failed to go on hook on line '' @ string_of_int n @ ''\<newline>'')))
        else if verb = CHR ''f'' then
          (if \<not> offhook (lines w ! i)
           then Inr (0, eprint w ''Can't do this action on on-hook line\<newline>'')
           else
             case ami_action w (SendFlash (channel (lines w ! i))) of
               (None, w1) \<Rightarrow> Inr (0, eprint w1 ''No response\<newline>'')
             | (Some resp, w1) \<Rightarrow>
                 if success resp then Inr (0, eprint w1 ''OK\<newline>'')
                 else Inr (0, eprint w1 (''Failed to send flash on line '' @ string_of_int n @ ''\<newline>'')))
        else if verb = CHR ''d'' then
          (if \<not> offhook (lines w ! i)
           then Inr (0, eprint w ''Can't do this action on on-hook line\<newline>'')
           else if peek arg = CHR ''t'' then Inr (0, play_dtmf w (channel (lines w ! i)) (tl arg))
           else if peek arg = CHR ''p'' then Inr (0, eprint w ''Dial pulse not yet supported\<newline>'')
           else Inr (0, eprint w (''Invalid dial type '' @ [peek arg] @ ''\<newline>'')))
        else Inr (0, eprint w (''Unknown line command '' @ [CHR 0x27] @ [peek command] @ [CHR 0x27] @ ''\<newline>'')))"

text \<open>The branch \<open>else\<close>: a global command.\<close>

definition global_command :: "world \<Rightarrow> string \<Rightarrow> fault + (int \<times> world)" where
  "global_command w command =
     (if peek command = CHR ''s'' then
        (case atoi (ltrim (tl command)) of
           None \<Rightarrow> Inl Atoi_overflow
         | Some sleeptime \<Rightarrow> Inr (0, do_effect w (Sleep (to_unsigned sleeptime))))
      else if strncasecmp_eq command ''ms'' 2 then
        (case atoi (ltrim (drop 2 command)) of
           None \<Rightarrow> Inl Atoi_overflow
         | Some sleeptime \<Rightarrow>
             if sleeptime * 1000 < INT_MIN \<or> INT_MAX < sleeptime * 1000 then Inl Int_overflow
             else Inr (0, do_effect w (Usleep (to_unsigned (sleeptime * 1000)))))
      else if strcasecmp_eq command ''q'' then Inr (- 1, w)
      else if strcasecmp_eq command ''k'' then Inr (0, hangup_all w)
      else Inr (0, eprint w (''Unknown global command '' @ [CHR 0x27] @ command @ [CHR 0x27] @ ''\<newline>'')))"

definition run_command :: "world \<Rightarrow> string \<Rightarrow> fault + (int \<times> world)" where
  "run_command w command0 =
     (let command = strip_comment command0 in
      if isdigit (peek command) then
        (case atoi command of
           None \<Rightarrow> Inl Atoi_overflow
         | Some n \<Rightarrow>
             if n = 0 then Inr (0, eprint w ''Line number must be between 1 and 9\<newline>'')
             else line_command w n (ltrim (tl command)))
      else global_command w command)"

subsection \<open>The session loop\<close>

definition help_text :: string where
  "help_text =
     [CHR 0x0D] @
     ''Usage: [<line #>] command [arguments]\<newline>'' @
     ''-- Line Actions (lines 1-9) --\<newline>'' @
     ''o     - Go off hook\<newline>'' @
     ''dt    - Dial digits using DTMF\<newline>'' @
     ''dp    - Dial digits using pulse dialing (not supported currently)\<newline>'' @
     ''a     - Answer incoming call\<newline>'' @
     ''f     - Hook flash\<newline>'' @
     ''h     - Go on hook\<newline>'' @
     ''p     - Play audio file\<newline>'' @
     ''-- General Actions --\<newline>'' @
     ''k     - hang up all active lines\<newline>'' @
     ''s     - sleep for N seconds\<newline>'' @
     ''ms    - sleep for N milliseconds\<newline>'' @
     ''q     - Quit\<newline>'' @
     ''-- Examples --\<newline>'' @
     ''1o             ; originate on line 1\<newline>'' @
     ''2 o            ; originate on line 2 (whitespace is ignored)\<newline>'' @
     ''1dt47          ; dial DTMF 47 on line 1\<newline>'' @
     ''3a             ; answer incoming call on line 3\<newline>'' @
     ''1p custom/beep ; Play audio file on line\<newline>'' @
     ''ms750          ; sleep for 750ms\<newline>''"

definition show_command_help :: "world \<Rightarrow> world" where
  "show_command_help w = do_effect w (Stdout help_text)"

text \<open>The C string in a buffer: the characters before the first NUL.\<close>

definition cstring :: "string \<Rightarrow> string" where
  "cstring buf = takeWhile (\<lambda>c. c \<noteq> NUL) buf"

text \<open>
  The loop \<open>for (;;)\<close> of \<open>multidialer\<close>, over the characters standard input still
  holds; \<open>poll\<close> is taken to return with input ready, and the end of the input is the
  \<open>read\<close> that returns 0. \<open>buf\<close> is what lies between \<open>inputbuf\<close> and \<open>pos\<close>.
  The result is the state when the loop is left.
\<close>

fun multidialer_loop :: "world \<Rightarrow> string \<Rightarrow> int \<Rightarrow> bool \<Rightarrow> string \<Rightarrow> fault + world" where
  "multidialer_loop w buf left reset [] = Inr (if reset then eprint w ''>'' else w)"
| "multidialer_loop w buf left reset (c # input) =
     (let w1 = (if reset then eprint w ''>'' else w);
          buf1 = (if reset then [] else buf);
          left1 = (if reset then 63 else left)
      in
      if c = CHR ''\<newline>'' then
        (case run_command w1 (cstring buf1) of
           Inl f \<Rightarrow> Inl f
         | Inr (r, w2) \<Rightarrow> if r \<noteq> 0 then Inr w2 else multidialer_loop w2 [] left1 True input)
      else if c = CHR ''?'' then
        multidialer_loop (do_effect (show_command_help w1) (Stdout ''\<newline>'')) buf1 left1 True input
      else if left1 - 1 \<le> 1 then
        multidialer_loop (eprint w1 ''Command too long\<newline>'') (buf1 @ [c]) (left1 - 1) True input
      else multidialer_loop w1 (buf1 @ [c]) (left1 - 1) False input)"

definition multidialer :: "world \<Rightarrow> string \<Rightarrow> fault + (int \<times> world)" where
  "multidialer w input =
     (let w1 = do_effect (do_effect w Signal_sigint) Tcsetattr_tty in
      case multidialer_loop w1 [] 0 True input of
        Inl f \<Rightarrow> Inl f
      | Inr w2 \<Rightarrow> Inr (0, do_effect (do_effect w2 Ami_disconnect) Tcsetattr_orig))"

subsection \<open>Observations and example states\<close>

text \<open>The AMI actions of a trace, in order.\<close>

fun ami_actions :: "effect list \<Rightarrow> action list" where
  "ami_actions [] = []"
| "ami_actions (Ami a # t) = a # ami_actions t"
| "ami_actions (e # t) = ami_actions t"

text \<open>A state in which line 1 is off hook and bound to a channel.\<close>

definition line1_offhook :: world where
  "line1_offhook =
     \<lparr>lines = (replicate 10 line0)
        [1 := \<lparr>devicename = ''PJSIP/autotest1'', dialstr = ''PJSIP/01@autotest1'',
               dialexten = ''idle'', channel = ''PJSIP/autotest1-00000002'', offhook = True\<rparr>],
      pending = [], trace = []\<rparr>"

text \<open>Example responses of the AMI server.\<close>

definition resp_ok :: ami_response where
  "resp_ok = \<lparr>success = True, events = []\<rparr>"

definition resp_channels :: ami_response where
  "resp_channels =
     \<lparr>success = True,
      events = [None, Some ''PJSIP/autotest2-00000001'', Some ''PJSIP/autotest1-00000002'', None]\<rparr>"

definition resp_other_channels :: ami_response where
  "resp_other_channels =
     \<lparr>success = True, events = [None, Some ''PJSIP/autotest2-00000001'', None]\<rparr>"

definition long_channel :: string where
  "long_channel = ''PJSIP/autotest1-'' @ replicate 120 (CHR ''0'')"

definition resp_long_channel :: ami_response where
  "resp_long_channel = \<lparr>success = True, events = [None, Some long_channel, None]\<rparr>"

section \<open>Properties\<close>

subsection \<open>Auxiliary facts\<close>

declare string_of_nat.simps [simp del]

lemmas clib_defs = strip_comment_def isdigit_def isspace_def peek_def atoi_def ltrim_def tolower_def
  digits_value_def digit_val_def INT_MAX_def INT_MIN_def strncasecmp_eq_def strcasecmp_eq_def NUL_def
  to_unsigned_def

lemma eprint_simps [simp]:
  "lines (eprint w s) = lines w"
  "pending (eprint w s) = pending w"
  "trace (eprint w s) = trace w @ [Stderr s]"
  by (simp_all add: eprint_def)

lemma do_effect_simps [simp]:
  "lines (do_effect w e) = lines w"
  "pending (do_effect w e) = pending w"
  "trace (do_effect w e) = trace w @ [e]"
  by (simp_all add: do_effect_def)

lemma set_offhook_simps [simp]:
  "pending (set_offhook w i b) = pending w"
  "trace (set_offhook w i b) = trace w"
  "length (lines (set_offhook w i b)) = length (lines w)"
  "j \<noteq> i \<Longrightarrow> lines (set_offhook w i b) ! j = lines w ! j"
  "i < length (lines w) \<Longrightarrow> lines (set_offhook w i b) ! i = (lines w ! i)\<lparr>offhook := b\<rparr>"
  by (simp_all add: set_offhook_def)

lemma set_channel_simps [simp]:
  "pending (set_channel w i c) = pending w"
  "trace (set_channel w i c) = trace w"
  "length (lines (set_channel w i c)) = length (lines w)"
  "j \<noteq> i \<Longrightarrow> lines (set_channel w i c) ! j = lines w ! j"
  "i < length (lines w) \<Longrightarrow> lines (set_channel w i c) ! i = (lines w ! i)\<lparr>channel := c\<rparr>"
  by (simp_all add: set_channel_def)

lemma derive_names_simps [simp]:
  "pending (derive_names w i) = pending w"
  "trace (derive_names w i) = trace w"
  "length (lines (derive_names w i)) = length (lines w)"
  "j \<noteq> i \<Longrightarrow> lines (derive_names w i) ! j = lines w ! j"
  "i < length (lines w) \<Longrightarrow> offhook (lines (derive_names w i) ! i) = offhook (lines w ! i)"
  "i < length (lines w) \<Longrightarrow> channel (lines (derive_names w i) ! i) = channel (lines w ! i)"
  by (simp_all add: derive_names_def)

lemma ami_action_simps [simp]:
  "lines (snd (ami_action w a)) = lines w"
  "pending (snd (ami_action w a)) = tl (pending w)"
  "trace (snd (ami_action w a)) = trace w @ [Ami a]"
  by (simp_all add: ami_action_def)

lemma ami_action_Cons:
  "pending w = r # rs \<Longrightarrow>
     ami_action w a = (r, w\<lparr>pending := rs, trace := trace w @ [Ami a]\<rparr>)"
  by (simp add: ami_action_def)

lemma run_command_line:
  assumes "isdigit (peek (strip_comment c))" and "atoi (strip_comment c) = Some n" and "n \<noteq> 0"
  shows "run_command w c = line_command w n (ltrim (tl (strip_comment c)))"
  using assms by (simp add: run_command_def)

lemma play_dtmf_simps [simp]:
  "lines (play_dtmf w ch ds) = lines w"
  "pending (play_dtmf w ch ds) = drop (length ds) (pending w)"
  "trace (play_dtmf w ch ds) = trace w @ map (\<lambda>d. Ami (PlayDTMF ch d)) ds"
  by (induction ds arbitrary: w; simp add: drop_Suc tl_drop)+

lemma line_command_onhook:
  assumes "0 \<le> n" and "n \<le> 9" and "length (lines w) = MAX_LINES + 1"
    and "\<not> offhook (lines w ! nat n)"
    and "tolower (peek cmd) \<in> {CHR ''h'', CHR ''f'', CHR ''d''}"
  shows "line_command w n cmd =
           Inr (0, eprint (derive_names w (nat n)) ''Can't do this action on on-hook line\<newline>'')"
proof -
  have i: "nat n < length (lines w)"
    using assms by (simp add: MAX_LINES_def)
  from assms(5) consider "tolower (peek cmd) = CHR ''h''" | "tolower (peek cmd) = CHR ''f''"
    | "tolower (peek cmd) = CHR ''d''" by auto
  then show ?thesis
    using assms(1,2,4) i by cases (simp_all add: line_command_def MAX_LINES_def Let_def)
qed

lemma line_command_dial:
  assumes "0 \<le> n" and "n \<le> 9" and "length (lines w) = MAX_LINES + 1"
    and "offhook (lines w ! nat n)"
    and "tolower (peek cmd) = CHR ''d''"
  shows "line_command w n cmd =
     (if peek (tl cmd) = CHR ''t''
      then Inr (0, play_dtmf (derive_names w (nat n)) (channel (lines w ! nat n)) (tl (tl cmd)))
      else if peek (tl cmd) = CHR ''p''
      then Inr (0, eprint (derive_names w (nat n)) ''Dial pulse not yet supported\<newline>'')
      else Inr (0, eprint (derive_names w (nat n)) (''Invalid dial type '' @ [peek (tl cmd)] @ ''\<newline>'')))"
proof -
  have i: "nat n < length (lines w)"
    using assms by (simp add: MAX_LINES_def)
  show ?thesis
    using assms(1,2,4,5) i by (simp add: line_command_def MAX_LINES_def Let_def)
qed

lemma strncmp_eq_prefix: "strncmp_eq ch pfx (length pfx) \<longleftrightarrow> prefix pfx ch"
proof
  assume "strncmp_eq ch pfx (length pfx)"
  then have "take (length pfx) ch = pfx" by (simp add: strncmp_eq_def)
  then show "prefix pfx ch" by (metis take_is_prefix)
next
  assume "prefix pfx ch"
  then show "strncmp_eq ch pfx (length pfx)"
    by (auto simp: strncmp_eq_def prefix_def)
qed

lemma find_channel_scan_none:
  assumes "\<forall>j. i \<le> j \<and> j + 1 < length evs \<longrightarrow> (\<exists>c. evs ! j = Some c \<and> \<not> prefix pfx c)"
  shows "find_channel_scan evs pfx i = Inr None"
  using assms
proof (induction evs pfx i rule: find_channel_scan.induct)
  case (1 evs pfx i)
  show ?case
  proof (cases "i + 1 < length evs")
    case False
    then show ?thesis by (subst find_channel_scan.simps) simp
  next
    case True
    with "1.prems" obtain c where c: "evs ! i = Some c" "\<not> prefix pfx c" by auto
    have "find_channel_scan evs pfx (i + 1) = Inr None"
      using True c "1.prems" by (intro "1.IH"(1)[of c]) (auto simp: strncmp_eq_prefix)
    with True c show ?thesis
      by (subst find_channel_scan.simps) (simp add: strncmp_eq_prefix)
  qed
qed

lemma find_channel_scan_first:
  assumes "i \<le> k" and "k + 1 < length evs" and "evs ! k = Some ch" and "prefix pfx ch"
    and "\<forall>j. i \<le> j \<and> j < k \<longrightarrow> (\<exists>c. evs ! j = Some c \<and> \<not> prefix pfx c)"
  shows "find_channel_scan evs pfx i = Inr (Some ch)"
  using assms
proof (induction evs pfx i rule: find_channel_scan.induct)
  case (1 evs pfx i)
  show ?case
  proof (cases "i = k")
    case True
    with "1.prems" show ?thesis
      by (subst find_channel_scan.simps) (simp add: strncmp_eq_prefix)
  next
    case False
    with "1.prems" have lt: "i < k" by simp
    with "1.prems" obtain c where c: "evs ! i = Some c" "\<not> prefix pfx c" by auto
    have "find_channel_scan evs pfx (i + 1) = Inr (Some ch)"
      using lt c "1.prems" by (intro "1.IH"(1)[of c]) (auto simp: strncmp_eq_prefix)
    with lt c "1.prems"(2) show ?thesis
      by (subst find_channel_scan.simps) (simp add: strncmp_eq_prefix)
  qed
qed

lemma ami_actions_append [simp]: "ami_actions (s @ t) = ami_actions s @ ami_actions t"
  by (induction s rule: ami_actions.induct) simp_all

lemma hangup_line_other: "j \<noteq> i \<Longrightarrow> lines (hangup_line w i) ! j = lines w ! j"
  by (simp add: hangup_line_def ami_action_def split: option.splits list.splits)

lemma hangup_line_actions:
  "ami_actions (trace (hangup_line w i)) =
     ami_actions (trace w) @ (if offhook (lines w ! i) then [Hangup (channel (lines w ! i)) 16] else [])"
  by (simp add: hangup_line_def ami_action_def split: option.splits list.splits)

lemma foldl_hangup_line_actions:
  "distinct is \<Longrightarrow>
     ami_actions (trace (foldl hangup_line w is)) =
       ami_actions (trace w) @
       map (\<lambda>i. Hangup (channel (lines w ! i)) 16) (filter (\<lambda>i. offhook (lines w ! i)) is)"
proof (induction "is" arbitrary: w)
  case Nil
  then show ?case by simp
next
  case (Cons i "is")
  have same: "\<And>j. j \<in> set is \<Longrightarrow> lines (hangup_line w i) ! j = lines w ! j"
    using Cons.prems by (intro hangup_line_other) auto
  have f: "filter (\<lambda>j. offhook (lines (hangup_line w i) ! j)) is = filter (\<lambda>j. offhook (lines w ! j)) is"
    by (rule filter_cong) (simp_all add: same)
  have m: "map (\<lambda>j. Hangup (channel (lines (hangup_line w i) ! j)) 16) (filter (\<lambda>j. offhook (lines w ! j)) is)
         = map (\<lambda>j. Hangup (channel (lines w ! j)) 16) (filter (\<lambda>j. offhook (lines w ! j)) is)"
    by (rule map_cong) (simp_all add: same)
  from Cons.prems have "distinct is" by simp
  from Cons.IH[OF this, of "hangup_line w i"] show ?case
    by (simp add: f m hangup_line_actions)
qed

lemma hangup_all_actions:
  "ami_actions (trace (hangup_all w)) =
     ami_actions (trace w) @
     map (\<lambda>i. Hangup (channel (lines w ! i)) 16)
       (filter (\<lambda>i. offhook (lines w ! i)) [1..<MAX_LINES + 1])"
  unfolding hangup_all_def by (rule foldl_hangup_line_actions) simp

lemma string_of_nat_digit: "i < 10 \<Longrightarrow> length (string_of_nat i) = 1"
  by (simp add: string_of_nat.simps)

lemma derive_names_devicename:
  assumes "i < length (lines w)" and "i < 10"
  shows "devicename (lines (derive_names w i) ! i) = ''PJSIP/autotest'' @ string_of_nat i"
    and "dialstr (lines (derive_names w i) ! i) = ''PJSIP/01@autotest'' @ string_of_nat i"
    and "dialexten (lines (derive_names w i) ! i) = ''idle''"
  using assms
  by (simp_all add: derive_names_def PEER_PREFIX_def PLAR_CODE_def PLAR_DIALPLAN_CONTEXT_def
        string_of_nat_digit)

lemma find_channel_no_response:
  assumes "pending w = None # rest"
  shows "find_channel w i =
     Inr (- 1, eprint (w\<lparr>pending := rest, trace := trace w @ [Ami CoreShowChannels]\<rparr>)
                 ''Failed to show channels\<newline>'')"
  using assms by (simp add: find_channel_def ami_action_Cons)

lemma find_channel_no_match:
  assumes "pending w = Some resp # rest"
    and "\<forall>j. 1 \<le> j \<and> j + 1 < length (events resp) \<longrightarrow>
           (\<exists>c. events resp ! j = Some c \<and> \<not> prefix (devicename (lines w ! i)) c)"
  shows "find_channel w i =
     Inr (- 1, eprint (w\<lparr>pending := rest, trace := trace w @ [Ami CoreShowChannels]\<rparr>)
                 (''Failed to find channel for '' @ devicename (lines w ! i) @ ''\<newline>''))"
  using assms(1) find_channel_scan_none [OF assms(2)]
  by (simp add: find_channel_def ami_action_Cons)

lemma find_channel_match:
  assumes "pending w = Some resp # rest"
    and "1 \<le> k" and "k + 1 < length (events resp)" and "events resp ! k = Some ch"
    and "prefix (devicename (lines w ! i)) ch"
    and "\<forall>j. 1 \<le> j \<and> j < k \<longrightarrow>
           (\<exists>c. events resp ! j = Some c \<and> \<not> prefix (devicename (lines w ! i)) c)"
  shows "find_channel w i =
     Inr (0, set_channel (w\<lparr>pending := rest, trace := trace w @ [Ami CoreShowChannels]\<rparr>) i (take 127 ch))"
  using assms(1) find_channel_scan_first [OF assms(2-6)]
  by (simp add: find_channel_def ami_action_Cons)

lemma find_channel_preserves:
  assumes "find_channel w i = Inr (r, w')" and "i < length (lines w)"
  shows "length (lines w') = length (lines w)"
    and "offhook (lines w' ! i) = offhook (lines w ! i)"
    and "pending w' = tl (pending w)"
  using assms
  by (auto simp: find_channel_def ami_action_def split: option.splits sum.splits list.splits)

lemma line_command_originate:
  assumes "0 \<le> n" and "n \<le> 9" and "length (lines w) = MAX_LINES + 1"
    and "tolower (peek cmd) = CHR ''o''"
    and "pending w = Some ro # rest" and "success ro"
  shows "line_command w n cmd =
     (case find_channel
             (set_offhook
                ((derive_names w (nat n))
                   \<lparr>pending := rest,
                    trace := trace w @ [Ami (Originate (''PJSIP/01@autotest'' @ string_of_nat (nat n))
                                               ''idle'' ''9999'' ''1'')]\<rparr>)
                (nat n) True)
             (nat n) of
        Inl f \<Rightarrow> Inl f
      | Inr (r, w2) \<Rightarrow> Inr (0, if r = 0 then eprint w2 ''OK\<newline>'' else w2))"
proof -
  have i: "nat n < length (lines w)" "nat n < 10"
    using assms by (simp_all add: MAX_LINES_def)
  show ?thesis
    using assms(1,2,4,5,6) i
    by (simp add: line_command_def MAX_LINES_def Let_def ami_action_Cons
        derive_names_devicename PLAR_DIALPLAN_EXTEN_def)
qed

lemma line_command_hangup:
  assumes "0 \<le> n" and "n \<le> 9" and "length (lines w) = MAX_LINES + 1"
    and "tolower (peek cmd) = CHR ''h''"
    and "offhook (lines w ! nat n)"
    and "pending w = Some rh # rest" and "success rh"
  shows "line_command w n cmd =
     Inr (0, eprint (set_offhook
                ((derive_names w (nat n))
                   \<lparr>pending := rest,
                    trace := trace w @ [Ami (Hangup (channel (lines w ! nat n)) 16)]\<rparr>)
                (nat n) False) ''OK\<newline>'')"
proof -
  have i: "nat n < length (lines w)" "nat n < 10"
    using assms by (simp_all add: MAX_LINES_def)
  show ?thesis
    using assms(1,2,4,5,6,7) i
    by (simp add: line_command_def MAX_LINES_def Let_def ami_action_Cons)
qed













text \<open>Two evaluations: an origination on line 1, and a quit while line 1 is off hook.\<close>

lemma run_1o:
  "run_command (init_world [Some resp_ok, Some resp_channels, Some resp_ok]) ''1o'' =
     Inr (0, line1_offhook
       \<lparr>pending := [Some resp_ok],
        trace := [Ami (Originate ''PJSIP/01@autotest1'' ''idle'' ''9999'' ''1''),
                  Ami CoreShowChannels, Stderr ''OK\<newline>'']\<rparr>)"
  by code_simp

lemma quit_sends_no_hangup:
  "(case multidialer line1_offhook ''q\<newline>'' of
      Inl f \<Rightarrow> False
    | Inr (r, w) \<Rightarrow> r = 0 \<and> offhook (lines w ! 1) \<and> ami_actions (trace w) = [])"
  by code_simp

subsection \<open>Actions on an on-hook line\<close>

text \<open>
  Claim C7. A line command whose verb is \<open>h\<close>, \<open>f\<close> or \<open>d\<close> (in either case),
  aimed at a line 1 to 9 that is on hook, is rejected: \<open>run_command\<close> returns 0, the only
  effect is the message on standard error (no AMI action is sent and no response is
  consumed), the hook state and the channel of the line are what they were, every other
  line is untouched, and the session loop goes on with the next input.
\<close>

theorem onhook_action_rejected:
  assumes "length (lines w) = MAX_LINES + 1"
    and "isdigit (peek (strip_comment c))"
    and "atoi (strip_comment c) = Some n" and "1 \<le> n" and "n \<le> 9"
    and "tolower (peek (ltrim (tl (strip_comment c)))) \<in> {CHR ''h'', CHR ''f'', CHR ''d''}"
    and "\<not> offhook (lines w ! nat n)"
    and "cstring buf = c"
  shows "\<exists>w'. run_command w c = Inr (0, w')
    \<and> trace w' = trace w @ [Stderr ''Can't do this action on on-hook line\<newline>'']
    \<and> pending w' = pending w
    \<and> \<not> offhook (lines w' ! nat n)
    \<and> channel (lines w' ! nat n) = channel (lines w ! nat n)
    \<and> (\<forall>j. j \<noteq> nat n \<longrightarrow> lines w' ! j = lines w ! j)
    \<and> multidialer_loop w buf left False (CHR ''\<newline>'' # input) = multidialer_loop w' [] left True input"
proof -
  let ?w' = "eprint (derive_names w (nat n)) ''Can't do this action on on-hook line\<newline>''"
  have i: "nat n < length (lines w)"
    using assms(1,4,5) by (simp add: MAX_LINES_def)
  have run: "run_command w c = Inr (0, ?w')"
    using assms by (simp add: run_command_line line_command_onhook)
  have loop: "multidialer_loop w buf left False (CHR ''\<newline>'' # input) = multidialer_loop ?w' [] left True input"
    using run assms(8) by simp
  show ?thesis
    using run loop i assms(7) by (intro exI[of _ ?w']) simp
qed

theorem onhook_action_rejected_witness:
  "\<exists>w'. run_command (init_world []) ''2f'' = Inr (0, w')
    \<and> trace w' = [Stderr ''Can't do this action on on-hook line\<newline>'']
    \<and> pending w' = []
    \<and> \<not> offhook (lines w' ! 2)
    \<and> channel (lines w' ! 2) = []
    \<and> multidialer_loop (init_world []) ''2f'' 61 False ''\<newline>'' = multidialer_loop w' [] 61 True []"
proof -
  have "\<exists>w'. run_command (init_world []) ''2f'' = Inr (0, w')
    \<and> trace w' = trace (init_world []) @ [Stderr ''Can't do this action on on-hook line\<newline>'']
    \<and> pending w' = pending (init_world [])
    \<and> \<not> offhook (lines w' ! nat 2)
    \<and> channel (lines w' ! nat 2) = channel (lines (init_world []) ! nat 2)
    \<and> (\<forall>j. j \<noteq> nat 2 \<longrightarrow> lines w' ! j = lines (init_world []) ! j)
    \<and> multidialer_loop (init_world []) ''2f'' 61 False (CHR ''\<newline>'' # []) = multidialer_loop w' [] 61 True []"
    by (rule onhook_action_rejected [of "init_world []" "''2f''" 2 "''2f''" 61 "[]"])
       (simp_all add: init_world_def line0_def MAX_LINES_def clib_defs cstring_def)
  then obtain w' where "run_command (init_world []) ''2f'' = Inr (0, w')"
    and "trace w' = trace (init_world []) @ [Stderr ''Can't do this action on on-hook line\<newline>'']"
    and "pending w' = pending (init_world [])"
    and "\<not> offhook (lines w' ! nat 2)"
    and "channel (lines w' ! nat 2) = channel (lines (init_world []) ! nat 2)"
    and "multidialer_loop (init_world []) ''2f'' 61 False (CHR ''\<newline>'' # []) = multidialer_loop w' [] 61 True []"
    by blast
  then show ?thesis
    by (intro exI[of _ w']) (simp add: init_world_def line0_def MAX_LINES_def)
qed

subsection \<open>DTMF dialling\<close>

text \<open>
  Claim C9. On an off-hook line 1 to 9, the command \<open>dt\<close> followed by an argument tail
  sends exactly one \<open>PlayDTMF\<close> action per character of the tail, on the channel of the
  line, in the order of the characters, and prints nothing.
\<close>

theorem dtmf_one_action_per_character:
  assumes "length (lines w) = MAX_LINES + 1"
    and "isdigit (peek (strip_comment c))"
    and "atoi (strip_comment c) = Some n" and "1 \<le> n" and "n \<le> 9"
    and "offhook (lines w ! nat n)"
    and "ltrim (tl (strip_comment c)) = v # CHR ''t'' # digits" and "tolower v = CHR ''d''"
  shows "\<exists>w'. run_command w c = Inr (0, w')
    \<and> trace w' = trace w @ map (\<lambda>d. Ami (PlayDTMF (channel (lines w ! nat n)) d)) digits
    \<and> offhook (lines w' ! nat n)
    \<and> channel (lines w' ! nat n) = channel (lines w ! nat n)"
proof -
  let ?w' = "play_dtmf (derive_names w (nat n)) (channel (lines w ! nat n)) digits"
  have i: "nat n < length (lines w)"
    using assms(1,4,5) by (simp add: MAX_LINES_def)
  have "run_command w c = Inr (0, ?w')"
    using assms by (simp add: run_command_line line_command_dial peek_def)
  then show ?thesis
    using i assms(6) by (intro exI[of _ ?w']) simp
qed

theorem dtmf_one_action_per_character_witness:
  "\<exists>w'. run_command line1_offhook ''1dt47'' = Inr (0, w')
    \<and> trace w' = [Ami (PlayDTMF ''PJSIP/autotest1-00000002'' CHR ''4''),
                   Ami (PlayDTMF ''PJSIP/autotest1-00000002'' CHR ''7'')]"
proof -
  have "\<exists>w'. run_command line1_offhook ''1dt47'' = Inr (0, w')
    \<and> trace w' = trace line1_offhook @ map (\<lambda>d. Ami (PlayDTMF (channel (lines line1_offhook ! nat 1)) d)) ''47''
    \<and> offhook (lines w' ! nat 1)
    \<and> channel (lines w' ! nat 1) = channel (lines line1_offhook ! nat 1)"
    by (rule dtmf_one_action_per_character [of line1_offhook "''1dt47''" 1 "CHR ''d''" "''47''"])
       (simp_all add: line1_offhook_def MAX_LINES_def clib_defs)
  then show ?thesis
    by (auto simp: line1_offhook_def)
qed

text \<open>
  Claim C10. The verb \<open>d\<close> is accepted in either case, but the dial type after it is
  compared as it is: on an off-hook line only \<open>t\<close> sends digits, only \<open>p\<close> gives the
  pulse message, and any other character, \<open>T\<close> and \<open>P\<close> among them, gives the
  invalid-dial-type message and sends nothing.
\<close>

theorem dial_type_case_sensitive:
  assumes "length (lines w) = MAX_LINES + 1"
    and "isdigit (peek (strip_comment c))"
    and "atoi (strip_comment c) = Some n" and "1 \<le> n" and "n \<le> 9"
    and "offhook (lines w ! nat n)"
    and "ltrim (tl (strip_comment c)) = v # arg" and "tolower v = CHR ''d''"
  shows "\<exists>w'. run_command w c = Inr (0, w')
    \<and> trace w' = trace w @
        (if peek arg = CHR ''t'' then map (\<lambda>d. Ami (PlayDTMF (channel (lines w ! nat n)) d)) (tl arg)
         else if peek arg = CHR ''p'' then [Stderr ''Dial pulse not yet supported\<newline>'']
         else [Stderr (''Invalid dial type '' @ [peek arg] @ ''\<newline>'')])"
proof -
  let ?w = "derive_names w (nat n)"
  let ?w' = "if peek arg = CHR ''t'' then play_dtmf ?w (channel (lines w ! nat n)) (tl arg)
      else if peek arg = CHR ''p'' then eprint ?w ''Dial pulse not yet supported\<newline>''
      else eprint ?w (''Invalid dial type '' @ [peek arg] @ ''\<newline>'')"
  have "run_command w c = Inr (0, ?w')"
    using assms by (simp add: run_command_line line_command_dial peek_def)
  then show ?thesis
    by (intro exI[of _ ?w']) simp
qed

theorem dial_type_case_sensitive_witness:
  "(\<exists>w'. run_command line1_offhook ''1dT47'' = Inr (0, w')
      \<and> trace w' = [Stderr ''Invalid dial type T\<newline>''])
   \<and> (\<exists>w'. run_command line1_offhook ''1DP47'' = Inr (0, w')
      \<and> trace w' = [Stderr ''Invalid dial type P\<newline>''])"
  using dial_type_case_sensitive [of line1_offhook "''1dT47''" 1 "CHR ''d''" "''T47''"]
    dial_type_case_sensitive [of line1_offhook "''1DP47''" 1 "CHR ''D''" "''P47''"]
  by (simp add: line1_offhook_def MAX_LINES_def clib_defs)

subsection \<open>Origination and channel resolution\<close>

text \<open>
  Claim C6. When a line command \<open>o\<close> for a line 1 to 9 gets a successful response to
  its \<open>Originate\<close> action and the channel resolution that follows fails (no response to
  the channel-list query, or no scanned entry has the device name of the line as a
  prefix), the command still returns 0 with the line off hook; the channel of the line is
  what it was before the command, and a failure message is printed in place of \<open>OK\<close>.
\<close>

theorem originate_not_rolled_back:
  assumes "length (lines w) = MAX_LINES + 1"
    and "isdigit (peek (strip_comment c))"
    and "atoi (strip_comment c) = Some n" and "1 \<le> n" and "n \<le> 9"
    and "tolower (peek (ltrim (tl (strip_comment c)))) = CHR ''o''"
    and "pending w = Some ro # sc # rest" and "success ro"
    and "sc = None \<or>
         (\<exists>r. sc = Some r \<and>
            (\<forall>j. 1 \<le> j \<and> j + 1 < length (events r) \<longrightarrow>
               (\<exists>ch. events r ! j = Some ch \<and>
                  \<not> prefix (''PJSIP/autotest'' @ string_of_nat (nat n)) ch)))"
  shows "\<exists>w'. run_command w c = Inr (0, w')
    \<and> offhook (lines w' ! nat n)
    \<and> channel (lines w' ! nat n) = channel (lines w ! nat n)
    \<and> trace w' = trace w @
        [Ami (Originate (''PJSIP/01@autotest'' @ string_of_nat (nat n)) ''idle'' ''9999'' ''1''),
         Ami CoreShowChannels,
         Stderr (if sc = None then ''Failed to show channels\<newline>''
                 else ''Failed to find channel for PJSIP/autotest'' @ string_of_nat (nat n) @ ''\<newline>'')]"
proof -
  let ?i = "nat n"
  let ?w1 = "set_offhook
       ((derive_names w ?i)
          \<lparr>pending := sc # rest,
           trace := trace w @ [Ami (Originate (''PJSIP/01@autotest'' @ string_of_nat ?i)
                                      ''idle'' ''9999'' ''1'')]\<rparr>) ?i True"
  have i: "?i < length (lines w)" "?i < 10"
    using assms(1,4,5) by (simp_all add: MAX_LINES_def)
  have run: "run_command w c =
      (case find_channel ?w1 ?i of
         Inl f \<Rightarrow> Inl f
       | Inr (r, w2) \<Rightarrow> Inr (0, if r = 0 then eprint w2 ''OK\<newline>'' else w2))"
    using assms(1-8) by (simp add: run_command_line line_command_originate)
  have dev: "devicename (lines ?w1 ! ?i) = ''PJSIP/autotest'' @ string_of_nat ?i"
    using i by (simp add: derive_names_devicename)
  have p1: "pending ?w1 = sc # rest" by simp
  from assms(9) show ?thesis
  proof
    assume none: "sc = None"
    let ?w' = "eprint (?w1\<lparr>pending := rest, trace := trace ?w1 @ [Ami CoreShowChannels]\<rparr>)
                 ''Failed to show channels\<newline>''"
    have "find_channel ?w1 ?i = Inr (- 1, ?w')"
      using p1 none by (intro find_channel_no_response) simp
    with run have run2: "run_command w c = Inr (0, ?w')" by simp
    have o: "offhook (lines ?w' ! ?i)"
      using i by simp
    have ch: "channel (lines ?w' ! ?i) = channel (lines w ! ?i)"
      using i by simp
    have t: "trace ?w' = trace w @
        [Ami (Originate (''PJSIP/01@autotest'' @ string_of_nat ?i) ''idle'' ''9999'' ''1''),
         Ami CoreShowChannels,
         Stderr (if sc = None then ''Failed to show channels\<newline>''
                 else ''Failed to find channel for PJSIP/autotest'' @ string_of_nat ?i @ ''\<newline>'')]"
      using none by simp
    show ?thesis
    proof (intro exI conjI)
      show "run_command w c = Inr (0, ?w')" by (rule run2)
    qed (rule o ch t)+
  next
    assume "\<exists>r. sc = Some r \<and>
            (\<forall>j. 1 \<le> j \<and> j + 1 < length (events r) \<longrightarrow>
               (\<exists>ch. events r ! j = Some ch \<and>
                  \<not> prefix (''PJSIP/autotest'' @ string_of_nat (nat n)) ch))"
    then obtain r where sc: "sc = Some r"
      and nomatch: "\<forall>j. 1 \<le> j \<and> j + 1 < length (events r) \<longrightarrow>
               (\<exists>ch. events r ! j = Some ch \<and> \<not> prefix (devicename (lines ?w1 ! ?i)) ch)"
      unfolding dev by blast
    let ?w' = "eprint (?w1\<lparr>pending := rest, trace := trace ?w1 @ [Ami CoreShowChannels]\<rparr>)
                 (''Failed to find channel for '' @ devicename (lines ?w1 ! ?i) @ ''\<newline>'')"
    have "find_channel ?w1 ?i = Inr (- 1, ?w')"
      using p1 sc nomatch by (intro find_channel_no_match) simp_all
    with run have run2: "run_command w c = Inr (0, ?w')" by simp
    have o: "offhook (lines ?w' ! ?i)"
      using i by simp
    have ch: "channel (lines ?w' ! ?i) = channel (lines w ! ?i)"
      using i by simp
    have t: "trace ?w' = trace w @
        [Ami (Originate (''PJSIP/01@autotest'' @ string_of_nat ?i) ''idle'' ''9999'' ''1''),
         Ami CoreShowChannels,
         Stderr (if sc = None then ''Failed to show channels\<newline>''
                 else ''Failed to find channel for PJSIP/autotest'' @ string_of_nat ?i @ ''\<newline>'')]"
      using sc i by (simp add: derive_names_devicename)
    show ?thesis
    proof (intro exI conjI)
      show "run_command w c = Inr (0, ?w')" by (rule run2)
    qed (rule o ch t)+
  qed
qed

theorem originate_not_rolled_back_witness:
  "(\<exists>w'. run_command (init_world [Some resp_ok, None]) ''1o'' = Inr (0, w')
      \<and> offhook (lines w' ! 1) \<and> channel (lines w' ! 1) = []
      \<and> trace w' = [Ami (Originate ''PJSIP/01@autotest1'' ''idle'' ''9999'' ''1''),
                     Ami CoreShowChannels, Stderr ''Failed to show channels\<newline>''])
   \<and> (\<exists>w'. run_command (init_world [Some resp_ok, Some resp_other_channels]) ''1o'' = Inr (0, w')
      \<and> offhook (lines w' ! 1) \<and> channel (lines w' ! 1) = []
      \<and> trace w' = [Ami (Originate ''PJSIP/01@autotest1'' ''idle'' ''9999'' ''1''),
                     Ami CoreShowChannels,
                     Stderr ''Failed to find channel for PJSIP/autotest1\<newline>''])"
proof -
  have a: "\<forall>j. 1 \<le> j \<and> j + 1 < length (events resp_other_channels) \<longrightarrow>
      (\<exists>ch. events resp_other_channels ! j = Some ch \<and> \<not> prefix (''PJSIP/autotest'' @ string_of_nat (nat 1)) ch)"
  proof (intro allI impI)
    fix j assume "1 \<le> j \<and> j + 1 < length (events resp_other_channels)"
    then have "j = 1" by (simp add: resp_other_channels_def)
    then show "\<exists>ch. events resp_other_channels ! j = Some ch \<and> \<not> prefix (''PJSIP/autotest'' @ string_of_nat (nat 1)) ch"
      by (simp add: resp_other_channels_def string_of_nat.simps)
  qed
  show ?thesis
    using originate_not_rolled_back [of "init_world [Some resp_ok, None]" "''1o''" 1 resp_ok None "[]"]
      originate_not_rolled_back [of "init_world [Some resp_ok, Some resp_other_channels]" "''1o''" 1
        resp_ok "Some resp_other_channels" "[]"] a
    by (simp add: init_world_def line0_def MAX_LINES_def clib_defs resp_ok_def string_of_nat.simps)
qed

text \<open>
  Claim C8, as amended. \<open>find_channel\<close> looks at the entries 1 to \<open>size - 2\<close> of the
  response in order. When entry \<open>k\<close> carries an identifier that has the device name of
  the line as a prefix, and every scanned entry before it carries an identifier without
  that prefix, the resolver returns 0 and stores the first 127 characters of that
  identifier as the channel of the line: the identifier itself when it is at most 127
  characters long. Nothing else of the registry changes.
\<close>

theorem find_channel_binds_first_match:
  assumes "length (lines w) = MAX_LINES + 1" and "1 \<le> n" and "n \<le> MAX_LINES"
    and "pending w = Some resp # rest"
    and "1 \<le> k" and "k + 1 < length (events resp)" and "events resp ! k = Some ch"
    and "prefix (devicename (lines w ! n)) ch"
    and "\<forall>j. 1 \<le> j \<and> j < k \<longrightarrow>
           (\<exists>c. events resp ! j = Some c \<and> \<not> prefix (devicename (lines w ! n)) c)"
  shows "\<exists>w'. find_channel w n = Inr (0, w')
    \<and> channel (lines w' ! n) = take 127 ch
    \<and> (length ch \<le> 127 \<longrightarrow> channel (lines w' ! n) = ch)
    \<and> offhook (lines w' ! n) = offhook (lines w ! n)
    \<and> (\<forall>j. j \<noteq> n \<longrightarrow> lines w' ! j = lines w ! j)
    \<and> trace w' = trace w @ [Ami CoreShowChannels]"
proof -
  let ?w' = "set_channel (w\<lparr>pending := rest, trace := trace w @ [Ami CoreShowChannels]\<rparr>) n (take 127 ch)"
  have n: "n < length (lines w)"
    using assms(1,3) by simp
  have "find_channel w n = Inr (0, ?w')"
    using assms(4-9) by (rule find_channel_match)
  then show ?thesis
    using n by (intro exI[of _ ?w']) simp
qed

theorem find_channel_binds_first_match_witness:
  "\<exists>w'. find_channel (derive_names (init_world [Some resp_channels]) 1) 1 = Inr (0, w')
    \<and> channel (lines w' ! 1) = ''PJSIP/autotest1-00000002''
    \<and> trace w' = [Ami CoreShowChannels]"
proof -
  let ?w = "derive_names (init_world [Some resp_channels]) 1"
  let ?ch = "''PJSIP/autotest1-00000002''"
  have dev: "devicename (lines ?w ! 1) = ''PJSIP/autotest1''"
    by (simp add: derive_names_def init_world_def MAX_LINES_def PEER_PREFIX_def string_of_nat.simps)
  have len: "length (lines ?w) = MAX_LINES + 1"
    by (simp add: init_world_def)
  have pend: "pending ?w = Some resp_channels # []"
    by (simp add: init_world_def)
  have k: "2 + 1 < length (events resp_channels)" "events resp_channels ! 2 = Some ?ch"
    by (simp_all add: resp_channels_def)
  have match: "prefix (devicename (lines ?w ! 1)) ?ch"
    using dev by simp
  have pre: "\<forall>j. 1 \<le> j \<and> j < 2 \<longrightarrow>
      (\<exists>c. events resp_channels ! j = Some c \<and> \<not> prefix (devicename (lines ?w ! 1)) c)"
  proof (intro allI impI)
    fix j :: nat assume "1 \<le> j \<and> j < 2"
    then have "j = 1" by simp
    then show "\<exists>c. events resp_channels ! j = Some c \<and> \<not> prefix (devicename (lines ?w ! 1)) c"
      using dev by (simp add: resp_channels_def)
  qed
  have "1 \<le> (1::nat)" and "(1::nat) \<le> MAX_LINES" and "1 \<le> (2::nat)"
    by (simp_all add: MAX_LINES_def)
  from find_channel_binds_first_match [OF len this(1,2) pend this(3) k match pre]
  show ?thesis
    by (auto simp: init_world_def)
qed

text \<open>
  The claim as written (the identifier itself is bound) fails for an identifier longer
  than the channel field: of a matching identifier of 136 characters only 127 are stored.
\<close>

theorem long_channel_truncated:
  "(case find_channel (derive_names (init_world [Some resp_long_channel]) 1) 1 of
      Inl f \<Rightarrow> False
    | Inr (r, w') \<Rightarrow> r = 0 \<and> channel (lines w' ! 1) \<noteq> long_channel)"
proof -
  let ?w = "derive_names (init_world [Some resp_long_channel]) 1"
  have dev: "devicename (lines ?w ! 1) = ''PJSIP/autotest1''"
    by (simp add: derive_names_def init_world_def MAX_LINES_def PEER_PREFIX_def string_of_nat.simps)
  have pend: "pending ?w = Some resp_long_channel # []"
    by (simp add: init_world_def)
  have k: "(1::nat) \<le> 1" "1 + 1 < length (events resp_long_channel)"
      "events resp_long_channel ! 1 = Some long_channel"
    by (simp_all add: resp_long_channel_def)
  have match: "prefix (devicename (lines ?w ! 1)) long_channel"
    using dev by (simp add: long_channel_def)
  have pre: "\<forall>j. 1 \<le> j \<and> j < 1 \<longrightarrow>
      (\<exists>c. events resp_long_channel ! j = Some c \<and> \<not> prefix (devicename (lines ?w ! 1)) c)"
    by simp
  have run: "find_channel ?w 1 =
      Inr (0, set_channel (?w\<lparr>pending := [], trace := trace ?w @ [Ami CoreShowChannels]\<rparr>) 1
                (take 127 long_channel))"
    by (rule find_channel_match [OF pend k match pre])
  have "length (take 127 long_channel) \<noteq> length long_channel"
    by (simp add: long_channel_def)
  then have "take 127 long_channel \<noteq> long_channel"
    by metis
  with run show ?thesis
    by (simp add: init_world_def MAX_LINES_def)
qed

subsection \<open>Origination followed by hangup\<close>

text \<open>
  Claim C1, as amended. For a line 1 to 9, after a command \<open>o\<close> whose \<open>Originate\<close>
  action succeeds the line is off hook, and a following command \<open>h\<close> whose \<open>Hangup\<close>
  action succeeds puts it back on hook. The channel identifier is not cleared: after the
  hangup the line holds the channel it held after the origination, and that is the
  channel the \<open>Hangup\<close> action was sent for.
\<close>

theorem originate_then_hangup:
  assumes "length (lines w) = MAX_LINES + 1" and "1 \<le> n" and "n \<le> 9"
    and "isdigit (peek (strip_comment co))" and "atoi (strip_comment co) = Some n"
    and "tolower (peek (ltrim (tl (strip_comment co)))) = CHR ''o''"
    and "isdigit (peek (strip_comment ch))" and "atoi (strip_comment ch) = Some n"
    and "tolower (peek (ltrim (tl (strip_comment ch)))) = CHR ''h''"
    and "pending w = Some ro # p" and "success ro"
    and "run_command w co = Inr (ret, wo)"
    and "pending wo = Some rh # p'" and "success rh"
  shows "offhook (lines wo ! nat n) \<and>
    (\<exists>w2. run_command wo ch = Inr (0, w2)
       \<and> \<not> offhook (lines w2 ! nat n)
       \<and> channel (lines w2 ! nat n) = channel (lines wo ! nat n)
       \<and> trace w2 = trace wo @ [Ami (Hangup (channel (lines wo ! nat n)) 16), Stderr ''OK\<newline>''])"
proof -
  let ?i = "nat n"
  let ?wo = "set_offhook
       ((derive_names w ?i)
          \<lparr>pending := p,
           trace := trace w @ [Ami (Originate (''PJSIP/01@autotest'' @ string_of_nat ?i)
                                      ''idle'' ''9999'' ''1'')]\<rparr>) ?i True"
  have i: "?i < length (lines w)"
    using assms(1,2,3) by (simp add: MAX_LINES_def)
  have "run_command w co =
      (case find_channel ?wo ?i of
         Inl f \<Rightarrow> Inl f
       | Inr (r, w2) \<Rightarrow> Inr (0, if r = 0 then eprint w2 ''OK\<newline>'' else w2))"
    using assms(1-6,10,11) by (simp add: run_command_line line_command_originate)
  with assms(12) obtain r wf where fc: "find_channel ?wo ?i = Inr (r, wf)"
    and wo: "wo = (if r = 0 then eprint wf ''OK\<newline>'' else wf)"
    by (auto split: sum.splits)
  have io: "?i < length (lines ?wo)"
    using i by simp
  have len1: "length (lines wo) = MAX_LINES + 1"
    using find_channel_preserves(1) [OF fc io] wo assms(1) by simp
  have "offhook (lines wf ! ?i)"
    using find_channel_preserves(2) [OF fc io] i by simp
  then have off1: "offhook (lines wo ! ?i)"
    using wo by simp
  let ?w2 = "eprint (set_offhook
                ((derive_names wo ?i)
                   \<lparr>pending := p',
                    trace := trace wo @ [Ami (Hangup (channel (lines wo ! ?i)) 16)]\<rparr>)
                ?i False) ''OK\<newline>''"
  have i1: "?i < length (lines wo)"
    using len1 assms(2,3) by (simp add: MAX_LINES_def)
  have run2: "run_command wo ch = Inr (0, ?w2)"
    using assms(2,3,7,8,9,13,14) len1 off1
    by (simp add: run_command_line line_command_hangup)
  have on2: "\<not> offhook (lines ?w2 ! ?i)"
    using i1 by simp
  have ch2: "channel (lines ?w2 ! ?i) = channel (lines wo ! ?i)"
    using i1 by simp
  have tr2: "trace ?w2 = trace wo @ [Ami (Hangup (channel (lines wo ! ?i)) 16), Stderr ''OK\<newline>'']"
    by simp
  show ?thesis
  proof (intro conjI exI)
    show "run_command wo ch = Inr (0, ?w2)" by (rule run2)
  qed (rule off1 on2 ch2 tr2)+
qed

theorem originate_then_hangup_witness:
  "\<exists>w2. run_command
           (line1_offhook
              \<lparr>pending := [Some resp_ok],
               trace := [Ami (Originate ''PJSIP/01@autotest1'' ''idle'' ''9999'' ''1''),
                         Ami CoreShowChannels, Stderr ''OK\<newline>'']\<rparr>) ''1h'' = Inr (0, w2)
       \<and> \<not> offhook (lines w2 ! 1)
       \<and> channel (lines w2 ! 1) = ''PJSIP/autotest1-00000002''"
proof -
  let ?w0 = "init_world [Some resp_ok, Some resp_channels, Some resp_ok]"
  let ?wo = "line1_offhook
              \<lparr>pending := [Some resp_ok],
               trace := [Ami (Originate ''PJSIP/01@autotest1'' ''idle'' ''9999'' ''1''),
                         Ami CoreShowChannels, Stderr ''OK\<newline>'']\<rparr>"
  have "offhook (lines ?wo ! nat 1) \<and>
    (\<exists>w2. run_command ?wo ''1h'' = Inr (0, w2)
       \<and> \<not> offhook (lines w2 ! nat 1)
       \<and> channel (lines w2 ! nat 1) = channel (lines ?wo ! nat 1)
       \<and> trace w2 = trace ?wo @ [Ami (Hangup (channel (lines ?wo ! nat 1)) 16), Stderr ''OK\<newline>''])"
  proof (rule originate_then_hangup [where w = ?w0 and co = "''1o''" and ro = resp_ok
        and p = "[Some resp_channels, Some resp_ok]" and ret = 0 and rh = resp_ok and p' = "[]"])
    show "run_command ?w0 ''1o'' = Inr (0, ?wo)" by (rule run_1o)
  qed (simp_all add: init_world_def MAX_LINES_def clib_defs resp_ok_def)
  then show ?thesis
    by (auto simp: line1_offhook_def)
qed

text \<open>
  The claim as written (the channel is cleared by the hangup) fails: after \<open>1o\<close> and
  \<open>1h\<close>, both successful, line 1 is on hook and still holds the resolved channel.
\<close>

theorem channel_kept_after_hangup:
  "(case multidialer (init_world [Some resp_ok, Some resp_channels, Some resp_ok])
           ''1o\<newline>1h\<newline>'' of
      Inl f \<Rightarrow> False
    | Inr (r, w) \<Rightarrow>
        \<not> offhook (lines w ! 1) \<and> channel (lines w ! 1) = ''PJSIP/autotest1-00000002''
        \<and> ami_actions (trace w) =
            [Originate ''PJSIP/01@autotest1'' ''idle'' ''9999'' ''1'', CoreShowChannels,
             Hangup ''PJSIP/autotest1-00000002'' 16])"
  by code_simp

subsection \<open>The ends of the process\<close>

text \<open>
  Claim C3, as amended. The interrupt handler \<open>restore_term\<close> sends one \<open>Hangup\<close>
  action for every line 1 to 9 that is off hook, in the order of the lines and whatever
  the responses are, then releases the AMI connection and exits with the failure status.
  The forced-disconnect callback restores the terminal and exits with the failure status
  without sending any action and without touching the registry.
\<close>

theorem interrupt_hangs_up_disconnect_does_not:
  "ami_actions (trace (snd (restore_term w))) =
     ami_actions (trace w) @
     map (\<lambda>i. Hangup (channel (lines w ! i)) 16)
       (filter (\<lambda>i. offhook (lines w ! i)) [1..<MAX_LINES + 1])
   \<and> trace (snd (restore_term w)) =
       trace (hangup_all (eprint (do_effect w Tcsetattr_orig) ''\<newline>'')) @
       [Ami_disconnect, Stderr ''\<newline>AstMultiDialer exiting...\<newline>'']
   \<and> fst (restore_term w) = EXIT_FAILURE
   \<and> trace (snd (simple_disconnect_callback w)) =
       trace w @ [Stderr ''\<newline>AMI was forcibly disconnected...\<newline>'', Tcsetattr_orig]
   \<and> lines (snd (simple_disconnect_callback w)) = lines w
   \<and> fst (simple_disconnect_callback w) = EXIT_FAILURE"
proof -
  have "ami_actions (trace (hangup_all (eprint (do_effect w Tcsetattr_orig) ''\<newline>''))) =
     ami_actions (trace w) @
     map (\<lambda>i. Hangup (channel (lines w ! i)) 16)
       (filter (\<lambda>i. offhook (lines w ! i)) [1..<MAX_LINES + 1])"
    by (simp add: hangup_all_actions)
  then show ?thesis
    by (simp add: restore_term_def simple_disconnect_callback_def Let_def)
qed

text \<open>
  The claim as written (every trigger hangs up the off-hook lines) fails for the forced
  disconnect: with line 1 off hook the callback sends nothing and the line stays off
  hook, where the interrupt handler sends the hangup.
\<close>

theorem disconnect_sends_no_hangup:
  "offhook (lines line1_offhook ! 1)
   \<and> ami_actions (trace (snd (simple_disconnect_callback line1_offhook))) = []
   \<and> offhook (lines (snd (simple_disconnect_callback line1_offhook)) ! 1)
   \<and> ami_actions (trace (snd (restore_term line1_offhook))) =
       [Hangup ''PJSIP/autotest1-00000002'' 16]"
  by code_simp

subsection \<open>Parsing\<close>




text \<open>
  Claim C5. The claim says every global token is matched without regard to case. The
  code compares the sleep token with \<open>*command == 's'\<close>: \<open>S5\<close> is reported as an
  unknown global command and does not sleep, while \<open>s5\<close> sleeps 5 seconds and the
  tokens \<open>ms\<close>, \<open>q\<close> and \<open>k\<close> are accepted in upper case.
\<close>

theorem uppercase_sleep_not_recognised:
  "run_command w ''S5'' = Inr (0, eprint w (''Unknown global command '' @ [CHR 0x27] @ ''S5'' @ [CHR 0x27] @ ''\<newline>''))
   \<and> run_command w ''s5'' = Inr (0, do_effect w (Sleep 5))
   \<and> run_command w ''MS5'' = run_command w ''ms5''
   \<and> run_command w ''Q'' = run_command w ''q''
   \<and> run_command w ''K'' = run_command w ''k''"
  by (simp add: run_command_def global_command_def clib_defs)

text \<open>
  Claim C2. The claim says every line number outside 1 to 9 is rejected before the
  registry is touched. The code rejects only the value 0: the line number 10 passes the
  check and the registry is indexed at 10, outside its \<open>MAX_LINES + 1\<close> slots.
\<close>

theorem line_number_ten_out_of_bounds:
  "run_command w ''10o'' = Inl (Out_of_bounds 10)
   \<and> run_command w ''0o'' = Inr (0, eprint w ''Line number must be between 1 and 9\<newline>'')"
  by (simp add: run_command_def line_command_def clib_defs MAX_LINES_def)

end
